theory Spec2Isabelle
  imports Complex_Main "HOL-Library.Word"
begin

section \<open>Values that cross the native boundary\<close>

text \<open>
  The two translation units verified here are the LinkKit stand-in for iOS
  (\<^verbatim>\<open>ABLLinkStubs.c\<close>, declared in \<^verbatim>\<open>ABLLink.h\<close>) and the JNI bridge for Android
  (\<^verbatim>\<open>link_jni.cpp\<close>).  Both consist of functions that discard every argument and
  return a constant.

  \<^item> \<^verbatim>\<open>ABLLinkRef\<close> and \<^verbatim>\<open>ABLLinkSessionStateRef\<close> are pointers to incomplete
    struct types; \<^verbatim>\<open>jlong\<close> carries such a pointer as a 64-bit integer.  All
    three are 64-bit words, the null pointer being the word \<open>0\<close>.
  \<^item> \<^verbatim>\<open>uint64_t\<close> is a 64-bit word, \<^verbatim>\<open>jint\<close> a 32-bit word, \<^verbatim>\<open>bool\<close> and
    \<^verbatim>\<open>jboolean\<close> are \<open>bool\<close> (\<^verbatim>\<open>JNI_FALSE\<close> is \<open>False\<close>).
  \<^item> \<^verbatim>\<open>double\<close> and \<^verbatim>\<open>jdouble\<close> are the type \<open>double\<close> below: a finite value,
    one of the two infinities, or NaN.  The sources only ever produce the
    literals \<^verbatim>\<open>0.0\<close> and \<^verbatim>\<open>120.0\<close>, both exactly representable, and perform no
    floating-point arithmetic, so finite values are carried as reals.
\<close>

type_synonym addr = "64 word"
type_synonym ABLLinkRef = "64 word"
type_synonym ABLLinkSessionStateRef = "64 word"
type_synonym jlong = "64 word"
type_synonym jint = "32 word"

abbreviation NULL :: "64 word" where
  "NULL \<equiv> 0"

datatype double = Finite real | PlusInf | MinusInf | NaN

type_synonym jdouble = double

text \<open>
  Process memory, byte addressed.  A C function that receives a pointer may
  read or write any of it; threading the memory through every call makes
  visible which functions do.
\<close>

type_synonym memory = "addr \<Rightarrow> 8 word"

definition zero_memory :: memory where
  "zero_memory = (\<lambda>a. 0)"

text \<open>
  The outcome of a native call: it returns a value and leaves the memory in
  some state, or it does not return normally (an abort, a failed assertion,
  a thrown exception).  No function of the two sources has a path of the
  second kind.
\<close>

datatype 'a outcome = Returns 'a memory | Rejects

fun rejected :: "'a outcome \<Rightarrow> bool" where
  "rejected (Returns v m) = False"
| "rejected Rejects = True"

text \<open>Sequencing of two calls: the second runs on the memory the first left.\<close>

fun and_then :: "'a outcome \<Rightarrow> ('a \<Rightarrow> memory \<Rightarrow> 'b outcome) \<Rightarrow> 'b outcome" where
  "and_then (Returns v m) f = f v m"
| "and_then Rejects f = Rejects"

text \<open>Classification of a \<^verbatim>\<open>double\<close> argument, and of a returned phase.\<close>

fun nonpositive :: "double \<Rightarrow> bool" where
  "nonpositive (Finite x) = (x \<le> 0)"
| "nonpositive MinusInf = True"
| "nonpositive PlusInf = False"
| "nonpositive NaN = False"

fun in_unit_interval :: "double \<Rightarrow> bool" where
  "in_unit_interval (Finite p) = (0 \<le> p \<and> p < 1)"
| "in_unit_interval PlusInf = False"
| "in_unit_interval MinusInf = False"
| "in_unit_interval NaN = False"

fun valid_phase :: "double outcome \<Rightarrow> bool" where
  "valid_phase (Returns p m) = in_unit_interval p"
| "valid_phase Rejects = False"


section \<open>ABLLinkStubs.c\<close>

definition ABLLinkNew :: "double \<Rightarrow> memory \<Rightarrow> ABLLinkRef outcome" where
  "ABLLinkNew bpm m = Returns NULL m"

definition ABLLinkDelete :: "ABLLinkRef \<Rightarrow> memory \<Rightarrow> unit outcome" where
  "ABLLinkDelete ref m = Returns () m"

definition ABLLinkSetActive :: "ABLLinkRef \<Rightarrow> bool \<Rightarrow> memory \<Rightarrow> unit outcome" where
  "ABLLinkSetActive ref active m = Returns () m"

definition ABLLinkIsEnabled :: "ABLLinkRef \<Rightarrow> memory \<Rightarrow> bool outcome" where
  "ABLLinkIsEnabled ref m = Returns False m"

definition ABLLinkGetNumPeers :: "ABLLinkRef \<Rightarrow> memory \<Rightarrow> 64 word outcome" where
  "ABLLinkGetNumPeers ref m = Returns 0 m"

definition ABLLinkCaptureAppSessionState ::
    "ABLLinkRef \<Rightarrow> memory \<Rightarrow> ABLLinkSessionStateRef outcome" where
  "ABLLinkCaptureAppSessionState ref m = Returns NULL m"

definition ABLLinkCommitAppSessionState ::
    "ABLLinkRef \<Rightarrow> ABLLinkSessionStateRef \<Rightarrow> memory \<Rightarrow> unit outcome" where
  "ABLLinkCommitAppSessionState ref state m = Returns () m"

definition ABLLinkGetTempo :: "ABLLinkSessionStateRef \<Rightarrow> memory \<Rightarrow> double outcome" where
  "ABLLinkGetTempo state m = Returns (Finite 120) m"

definition ABLLinkSetTempo ::
    "ABLLinkSessionStateRef \<Rightarrow> double \<Rightarrow> 64 word \<Rightarrow> memory \<Rightarrow> unit outcome" where
  "ABLLinkSetTempo state bpm hostTime m = Returns () m"

definition ABLLinkGetBeatAtTime ::
    "ABLLinkSessionStateRef \<Rightarrow> 64 word \<Rightarrow> double \<Rightarrow> memory \<Rightarrow> double outcome" where
  "ABLLinkGetBeatAtTime state hostTime quantum m = Returns (Finite 0) m"


section \<open>link\_jni.cpp\<close>

text \<open>
  Each function below is the source's
  \<^verbatim>\<open>Java_com_chromadmx_tempo_link_LinkSession_<name>\<close>.  The \<^verbatim>\<open>JNIEnv*\<close> and
  \<^verbatim>\<open>jobject\<close> parameters are unnamed in the source, hence unusable by the
  bodies, and are left out.
\<close>

definition nativeCreate :: "jdouble \<Rightarrow> memory \<Rightarrow> jlong outcome" where
  "nativeCreate initialBpm m = Returns 0 m"

definition nativeDestroy :: "jlong \<Rightarrow> memory \<Rightarrow> unit outcome" where
  "nativeDestroy ptr m = Returns () m"

definition nativeSetEnabled :: "jlong \<Rightarrow> bool \<Rightarrow> memory \<Rightarrow> unit outcome" where
  "nativeSetEnabled ptr enabled m = Returns () m"

definition nativeIsEnabled :: "jlong \<Rightarrow> memory \<Rightarrow> bool outcome" where
  "nativeIsEnabled ptr m = Returns False m"

definition nativeCaptureBpm :: "jlong \<Rightarrow> memory \<Rightarrow> jdouble outcome" where
  "nativeCaptureBpm ptr m = Returns (Finite 120) m"

definition nativeCaptureBeatPhase :: "jlong \<Rightarrow> jdouble \<Rightarrow> memory \<Rightarrow> jdouble outcome" where
  "nativeCaptureBeatPhase ptr quantum m = Returns (Finite 0) m"

definition nativeCaptureBarPhase :: "jlong \<Rightarrow> jdouble \<Rightarrow> memory \<Rightarrow> jdouble outcome" where
  "nativeCaptureBarPhase ptr quantum m = Returns (Finite 0) m"

definition nativeNumPeers :: "jlong \<Rightarrow> memory \<Rightarrow> jint outcome" where
  "nativeNumPeers ptr m = Returns 0 m"

definition nativeRequestBpm :: "jlong \<Rightarrow> jdouble \<Rightarrow> memory \<Rightarrow> unit outcome" where
  "nativeRequestBpm ptr bpm m = Returns () m"


section \<open>What a client observes through a fresh capture\<close>

text \<open>
  The tempo and the beat position a client reads are those of a session state
  it has just captured: \<^verbatim>\<open>ABLLinkGetTempo(ABLLinkCaptureAppSessionState(ref))\<close>
  and \<^verbatim>\<open>ABLLinkGetBeatAtTime(ABLLinkCaptureAppSessionState(ref), t, q)\<close>.
\<close>

definition observed_tempo :: "ABLLinkRef \<Rightarrow> memory \<Rightarrow> double outcome" where
  "observed_tempo ref m = and_then (ABLLinkCaptureAppSessionState ref m) ABLLinkGetTempo"

definition observed_beat :: "ABLLinkRef \<Rightarrow> 64 word \<Rightarrow> double \<Rightarrow> memory \<Rightarrow> double outcome" where
  "observed_beat ref hostTime quantum m =
     and_then (ABLLinkCaptureAppSessionState ref m)
       (\<lambda>state. ABLLinkGetBeatAtTime state hostTime quantum)"


section \<open>The phase algorithm as the specification words it\<close>

text \<open>
  The specification's algorithm, on real numbers: \<open>rawPhase = beats mod quantum\<close>,
  add \<open>quantum\<close> if \<open>rawPhase < 0\<close>, return \<open>rawPhase / quantum\<close>.  The remainder
  is the truncating one (\<^verbatim>\<open>std::fmod\<close>, with the sign of the dividend), which is
  why the algorithm has the correcting step.  The helper \<^verbatim>\<open>calculatePhase\<close> that
  \<^verbatim>\<open>link_jni.cpp\<close> keeps commented out is the same computation; it is not part
  of the compiled program.
\<close>

definition trunc :: "real \<Rightarrow> int" where
  "trunc r = (if r < 0 then \<lceil>r\<rceil> else \<lfloor>r\<rfloor>)"

definition fmod :: "real \<Rightarrow> real \<Rightarrow> real" where
  "fmod x y = x - of_int (trunc (x / y)) * y"

definition phase_spec :: "real \<Rightarrow> real \<Rightarrow> real" where
  "phase_spec beats quantum =
     (let rawPhase = fmod beats quantum;
          rawPhase' = (if rawPhase < 0 then rawPhase + quantum else rawPhase)
      in rawPhase' / quantum)"


section \<open>The two phase entry points\<close>

text \<open>
  Claim C9.  The beat-phase and the bar-phase entry points are the same
  function: for every pointer, every quantum and every memory,
  \<open>nativeCaptureBeatPhase\<close> and \<open>nativeCaptureBarPhase\<close> have the same outcome.
\<close>

theorem beat_phase_eq_bar_phase:
  "nativeCaptureBeatPhase ptr quantum m = nativeCaptureBarPhase ptr quantum m"
  by (simp add: nativeCaptureBeatPhase_def nativeCaptureBarPhase_def)

text \<open>
  Claim C1.  For every pointer, every memory and every finite quantum
  \<open>q > 0\<close>, both phase entry points return a phase \<open>p\<close> with \<open>0 \<le> p < 1\<close>.
\<close>

theorem phase_in_unit_interval:
  "0 < q \<Longrightarrow>
     valid_phase (nativeCaptureBeatPhase ptr (Finite q) m) \<and>
     valid_phase (nativeCaptureBarPhase ptr (Finite q) m)"
  by (simp add: nativeCaptureBeatPhase_def nativeCaptureBarPhase_def)

theorem phase_in_unit_interval_witness:
  "(0::real) < 4 \<and>
     valid_phase (nativeCaptureBeatPhase 0 (Finite 4) zero_memory) \<and>
     valid_phase (nativeCaptureBarPhase 0 (Finite 4) zero_memory)"
  using phase_in_unit_interval [of 4 0 zero_memory] by simp




section \<open>Tempo changes and commits\<close>

text \<open>
  Claim C3.  For every session state \<open>S\<close>, every finite \<open>newBpm > 0\<close> and every
  host time \<open>t\<close>: reading the beat position at \<open>t\<close> after
  \<open>ABLLinkSetTempo S newBpm t\<close> gives the outcome that reading it before
  gives, and that read returns.
\<close>

theorem tempo_change_continuity:
  "0 < newBpm \<Longrightarrow>
     and_then (ABLLinkSetTempo S (Finite newBpm) t m) (\<lambda>u. ABLLinkGetBeatAtTime S t quantum)
       = ABLLinkGetBeatAtTime S t quantum m \<and>
     \<not> rejected (ABLLinkGetBeatAtTime S t quantum m)"
  by (simp add: ABLLinkSetTempo_def ABLLinkGetBeatAtTime_def)

theorem tempo_change_continuity_witness:
  "(0::real) < 90 \<and>
     and_then (ABLLinkSetTempo NULL (Finite 90) 1000 zero_memory)
         (\<lambda>u. ABLLinkGetBeatAtTime NULL 1000 (Finite 4))
       = ABLLinkGetBeatAtTime NULL 1000 (Finite 4) zero_memory \<and>
     \<not> rejected (ABLLinkGetBeatAtTime NULL 1000 (Finite 4) zero_memory)"
  using tempo_change_continuity [of 90 NULL 1000 zero_memory "Finite 4"] by simp

text \<open>
  Claim C5.  Committing a captured state unmodified changes neither the tempo
  nor the beat position that a subsequent capture shows, and both reads
  return.
\<close>

theorem noop_commit_round_trip:
  "and_then
     (and_then (ABLLinkCaptureAppSessionState ref m) (ABLLinkCommitAppSessionState ref))
     (\<lambda>u. observed_tempo ref) = observed_tempo ref m \<and>
   and_then
     (and_then (ABLLinkCaptureAppSessionState ref m) (ABLLinkCommitAppSessionState ref))
     (\<lambda>u. observed_beat ref hostTime quantum) = observed_beat ref hostTime quantum m \<and>
   \<not> rejected (observed_tempo ref m) \<and>
   \<not> rejected (observed_beat ref hostTime quantum m)"
  by (simp add: ABLLinkCaptureAppSessionState_def ABLLinkCommitAppSessionState_def
      observed_tempo_def observed_beat_def ABLLinkGetTempo_def ABLLinkGetBeatAtTime_def)


section \<open>Arguments outside the contract\<close>

text \<open>
  Claim C4 (as amended).  For every quantum \<open>\<le> 0\<close> (a finite non-positive value
  or negative infinity), neither phase entry point rejects the call: each
  returns the phase \<open>0.0\<close> and leaves memory as it was.  No division takes
  place and the value returned is not NaN.
\<close>

theorem nonpositive_quantum_returns_zero:
  "nonpositive quantum \<Longrightarrow>
     nativeCaptureBeatPhase ptr quantum m = Returns (Finite 0) m \<and>
     nativeCaptureBarPhase ptr quantum m = Returns (Finite 0) m \<and>
     \<not> rejected (nativeCaptureBeatPhase ptr quantum m) \<and>
     \<not> rejected (nativeCaptureBarPhase ptr quantum m) \<and>
     nativeCaptureBeatPhase ptr quantum m \<noteq> Returns NaN m \<and>
     nativeCaptureBarPhase ptr quantum m \<noteq> Returns NaN m"
  by (simp add: nativeCaptureBeatPhase_def nativeCaptureBarPhase_def)

theorem nonpositive_quantum_returns_zero_witness:
  "nonpositive (Finite (- 1)) \<and>
     nativeCaptureBeatPhase 0 (Finite (- 1)) zero_memory = Returns (Finite 0) zero_memory \<and>
     nativeCaptureBarPhase 0 (Finite (- 1)) zero_memory = Returns (Finite 0) zero_memory \<and>
     \<not> rejected (nativeCaptureBeatPhase 0 (Finite (- 1)) zero_memory) \<and>
     \<not> rejected (nativeCaptureBarPhase 0 (Finite (- 1)) zero_memory)"
  using nonpositive_quantum_returns_zero [of "Finite (- 1)" 0 zero_memory] by simp

text \<open>
  Claim C4 as stated fails: with quantum \<open>0.0\<close> the beat-phase entry point is
  not rejected, it returns \<open>0.0\<close>.
\<close>

theorem zero_quantum_counterexample:
  "nonpositive (Finite 0) \<and>
   \<not> rejected (nativeCaptureBeatPhase 0 (Finite 0) zero_memory) \<and>
   nativeCaptureBeatPhase 0 (Finite 0) zero_memory = Returns (Finite 0) zero_memory"
  by (simp add: nativeCaptureBeatPhase_def)

text \<open>
  Claim C6 (as amended).  For every non-positive bpm, \<open>nativeRequestBpm\<close>
  returns without rejecting the call and without touching memory: nothing is
  committed, no clamped value is stored, and the tempo read after the call
  (through \<open>nativeCaptureBpm\<close>, or through \<open>ABLLinkGetTempo\<close> on a fresh capture)
  is the tempo read before it.
\<close>

theorem nonpositive_bpm_request_is_dropped:
  "nonpositive bpm \<Longrightarrow>
     nativeRequestBpm ptr bpm m = Returns () m \<and>
     \<not> rejected (nativeRequestBpm ptr bpm m) \<and>
     and_then (nativeRequestBpm ptr bpm m) (\<lambda>u. nativeCaptureBpm ptr) = nativeCaptureBpm ptr m \<and>
     and_then (nativeRequestBpm ptr bpm m) (\<lambda>u. observed_tempo ref) = observed_tempo ref m \<and>
     \<not> rejected (nativeCaptureBpm ptr m) \<and>
     \<not> rejected (observed_tempo ref m)"
  by (simp add: nativeRequestBpm_def nativeCaptureBpm_def observed_tempo_def
      ABLLinkCaptureAppSessionState_def ABLLinkGetTempo_def)

theorem nonpositive_bpm_request_is_dropped_witness:
  "nonpositive (Finite (- 5)) \<and>
     nativeRequestBpm 0 (Finite (- 5)) zero_memory = Returns () zero_memory \<and>
     \<not> rejected (nativeRequestBpm 0 (Finite (- 5)) zero_memory) \<and>
     and_then (nativeRequestBpm 0 (Finite (- 5)) zero_memory) (\<lambda>u. nativeCaptureBpm 0)
       = nativeCaptureBpm 0 zero_memory \<and>
     and_then (nativeRequestBpm 0 (Finite (- 5)) zero_memory) (\<lambda>u. observed_tempo NULL)
       = observed_tempo NULL zero_memory"
  using nonpositive_bpm_request_is_dropped [of "Finite (- 5)" 0 zero_memory NULL] by simp

text \<open>
  Claim C6 as stated fails: the request for \<open>-5\<close> bpm is not rejected, the
  call returns as any other does.
\<close>

theorem negative_bpm_counterexample:
  "nonpositive (Finite (- 5)) \<and>
   \<not> rejected (nativeRequestBpm 0 (Finite (- 5)) zero_memory) \<and>
   nativeRequestBpm 0 (Finite (- 5)) zero_memory = Returns () zero_memory"
  by (simp add: nativeRequestBpm_def)


section \<open>Sessions without a mesh\<close>

text \<open>
  Claim C7.  Take the session that \<open>ABLLinkNew\<close> (or \<open>nativeCreate\<close>) hands out,
  for any initial bpm, with no call to \<open>ABLLinkSetActive\<close> made.  Capturing
  its state returns (the handle captured is the null one), and that state is
  usable: its tempo reads as \<open>120\<close> and its beat position as \<open>0.0\<close>.  Both
  phase entry points return a phase in \<open>[0, 1)\<close>, \<open>ABLLinkIsEnabled\<close> and
  \<open>nativeIsEnabled\<close> report false, and the peer count is \<open>0\<close>.  None of these
  calls fails.
\<close>

theorem never_activated_session_is_usable:
  "and_then (ABLLinkNew bpm m) ABLLinkCaptureAppSessionState = Returns NULL m \<and>
   and_then (ABLLinkNew bpm m) observed_tempo = Returns (Finite 120) m \<and>
   and_then (ABLLinkNew bpm m) (\<lambda>ref. observed_beat ref hostTime quantum)
     = Returns (Finite 0) m \<and>
   and_then (ABLLinkNew bpm m) ABLLinkIsEnabled = Returns False m \<and>
   and_then (ABLLinkNew bpm m) ABLLinkGetNumPeers = Returns 0 m \<and>
   valid_phase (and_then (nativeCreate bpm m) (\<lambda>ptr. nativeCaptureBeatPhase ptr quantum)) \<and>
   valid_phase (and_then (nativeCreate bpm m) (\<lambda>ptr. nativeCaptureBarPhase ptr quantum)) \<and>
   and_then (nativeCreate bpm m) nativeIsEnabled = Returns False m \<and>
   and_then (nativeCreate bpm m) nativeNumPeers = Returns 0 m"
  by (simp add: ABLLinkNew_def ABLLinkCaptureAppSessionState_def observed_tempo_def
      observed_beat_def ABLLinkGetTempo_def ABLLinkGetBeatAtTime_def ABLLinkIsEnabled_def
      ABLLinkGetNumPeers_def nativeCreate_def nativeCaptureBeatPhase_def
      nativeCaptureBarPhase_def nativeIsEnabled_def nativeNumPeers_def)

text \<open>
  Claim C8.  For every handle, every argument and every memory, the peer
  count is \<open>0\<close> (\<open>ABLLinkGetNumPeers\<close>, \<open>nativeNumPeers\<close>) and the tempo is \<open>120\<close>
  (\<open>ABLLinkGetTempo\<close>, \<open>nativeCaptureBpm\<close>).  The same holds of a session just
  constructed with any initial bpm, and after setting any tempo on a state
  and committing it, or requesting any bpm.
\<close>

theorem stub_peer_count_and_tempo_are_constant:
  "ABLLinkGetNumPeers ref m = Returns 0 m \<and>
   nativeNumPeers ptr m = Returns 0 m \<and>
   ABLLinkGetTempo state m = Returns (Finite 120) m \<and>
   nativeCaptureBpm ptr m = Returns (Finite 120) m \<and>
   and_then (ABLLinkNew initialBpm m) observed_tempo = Returns (Finite 120) m \<and>
   and_then (ABLLinkNew initialBpm m) ABLLinkGetNumPeers = Returns 0 m \<and>
   and_then (nativeCreate initialBpm m) nativeCaptureBpm = Returns (Finite 120) m \<and>
   and_then (nativeCreate initialBpm m) nativeNumPeers = Returns 0 m \<and>
   and_then
     (and_then (ABLLinkSetTempo state bpm hostTime m)
        (\<lambda>u. ABLLinkCommitAppSessionState ref state))
     (\<lambda>u. ABLLinkGetTempo state) = Returns (Finite 120) m \<and>
   and_then
     (and_then (ABLLinkSetTempo state bpm hostTime m)
        (\<lambda>u. ABLLinkCommitAppSessionState ref state))
     (\<lambda>u. observed_tempo ref) = Returns (Finite 120) m \<and>
   and_then
     (and_then (ABLLinkSetTempo state bpm hostTime m)
        (\<lambda>u. ABLLinkCommitAppSessionState ref state))
     (\<lambda>u. ABLLinkGetNumPeers ref) = Returns 0 m \<and>
   and_then (nativeRequestBpm ptr bpm m) (\<lambda>u. nativeCaptureBpm ptr) = Returns (Finite 120) m \<and>
   and_then (nativeRequestBpm ptr bpm m) (\<lambda>u. nativeNumPeers ptr) = Returns 0 m"
  by (simp add: ABLLinkGetNumPeers_def nativeNumPeers_def ABLLinkGetTempo_def
      nativeCaptureBpm_def ABLLinkNew_def nativeCreate_def observed_tempo_def
      ABLLinkCaptureAppSessionState_def ABLLinkSetTempo_def ABLLinkCommitAppSessionState_def
      nativeRequestBpm_def)


section \<open>Null handles\<close>

text \<open>
  Claim C10.  Every operation of the stub layer that takes a handle gives,
  for any handle, the outcome it gives for the null handle (\<open>NULL\<close>, or the
  \<^verbatim>\<open>jlong\<close> \<open>0\<close>), and for the null handle it returns its fixed default and
  leaves memory as it found it, whatever the memory holds: no operation reads
  or writes through its handle, and none fails.
\<close>

theorem stub_operations_ignore_their_handle:
  "ABLLinkDelete ref m = ABLLinkDelete NULL m \<and>
   ABLLinkDelete NULL m = Returns () m \<and>
   ABLLinkSetActive ref active m = ABLLinkSetActive NULL active m \<and>
   ABLLinkSetActive NULL active m = Returns () m \<and>
   ABLLinkIsEnabled ref m = ABLLinkIsEnabled NULL m \<and>
   ABLLinkIsEnabled NULL m = Returns False m \<and>
   ABLLinkGetNumPeers ref m = ABLLinkGetNumPeers NULL m \<and>
   ABLLinkGetNumPeers NULL m = Returns 0 m \<and>
   ABLLinkCaptureAppSessionState ref m = ABLLinkCaptureAppSessionState NULL m \<and>
   ABLLinkCaptureAppSessionState NULL m = Returns NULL m \<and>
   ABLLinkCommitAppSessionState ref state m = ABLLinkCommitAppSessionState NULL NULL m \<and>
   ABLLinkCommitAppSessionState NULL NULL m = Returns () m \<and>
   ABLLinkGetTempo state m = ABLLinkGetTempo NULL m \<and>
   ABLLinkGetTempo NULL m = Returns (Finite 120) m \<and>
   ABLLinkSetTempo state bpm hostTime m = ABLLinkSetTempo NULL bpm hostTime m \<and>
   ABLLinkSetTempo NULL bpm hostTime m = Returns () m \<and>
   ABLLinkGetBeatAtTime state hostTime quantum m = ABLLinkGetBeatAtTime NULL hostTime quantum m \<and>
   ABLLinkGetBeatAtTime NULL hostTime quantum m = Returns (Finite 0) m \<and>
   nativeDestroy ptr m = nativeDestroy 0 m \<and>
   nativeDestroy 0 m = Returns () m \<and>
   nativeSetEnabled ptr active m = nativeSetEnabled 0 active m \<and>
   nativeSetEnabled 0 active m = Returns () m \<and>
   nativeIsEnabled ptr m = nativeIsEnabled 0 m \<and>
   nativeIsEnabled 0 m = Returns False m \<and>
   nativeCaptureBpm ptr m = nativeCaptureBpm 0 m \<and>
   nativeCaptureBpm 0 m = Returns (Finite 120) m \<and>
   nativeCaptureBeatPhase ptr quantum m = nativeCaptureBeatPhase 0 quantum m \<and>
   nativeCaptureBeatPhase 0 quantum m = Returns (Finite 0) m \<and>
   nativeCaptureBarPhase ptr quantum m = nativeCaptureBarPhase 0 quantum m \<and>
   nativeCaptureBarPhase 0 quantum m = Returns (Finite 0) m \<and>
   nativeNumPeers ptr m = nativeNumPeers 0 m \<and>
   nativeNumPeers 0 m = Returns 0 m \<and>
   nativeRequestBpm ptr bpm m = nativeRequestBpm 0 bpm m \<and>
   nativeRequestBpm 0 bpm m = Returns () m"
  by (simp add: ABLLinkDelete_def ABLLinkSetActive_def ABLLinkIsEnabled_def
      ABLLinkGetNumPeers_def ABLLinkCaptureAppSessionState_def
      ABLLinkCommitAppSessionState_def ABLLinkGetTempo_def ABLLinkSetTempo_def
      ABLLinkGetBeatAtTime_def nativeDestroy_def nativeSetEnabled_def nativeIsEnabled_def
      nativeCaptureBpm_def nativeCaptureBeatPhase_def nativeCaptureBarPhase_def
      nativeNumPeers_def nativeRequestBpm_def)


section \<open>The specified algorithm on real numbers\<close>

text \<open>
  A supporting fact about \<open>phase_spec\<close>, the algorithm the stubs stand in for:
  on real numbers, with a positive quantum, its result lies in \<open>[0, 1)\<close> for
  every beat position, negative ones included.
\<close>

lemma frac_trunc_bounds: "- 1 < r - of_int (trunc r) \<and> r - of_int (trunc r) < 1"
  unfolding trunc_def by (auto; linarith)

lemma phase_spec_in_unit_interval:
  assumes "0 < q"
  shows "0 \<le> phase_spec b q \<and> phase_spec b q < 1"
proof -
  let ?f = "b / q - of_int (trunc (b / q))"
  have eq: "fmod b q = ?f * q"
    using assms by (simp add: fmod_def algebra_simps)
  have bounds: "- 1 < ?f" "?f < 1"
    using frac_trunc_bounds [of "b / q"] by simp_all
  show ?thesis
  proof (cases "fmod b q < 0")
    case True
    then have neg: "?f < 0" using assms eq by (simp add: mult_less_0_iff)
    have "phase_spec b q = (fmod b q + q) / q"
      using True by (simp add: phase_spec_def)
    also have "\<dots> = ?f + 1" using assms eq by (simp add: add_divide_distrib)
    finally show ?thesis using bounds neg by simp
  next
    case False
    then have nonneg: "0 \<le> ?f" using assms eq by (simp add: zero_le_mult_iff not_less)
    have "phase_spec b q = fmod b q / q"
      using False by (simp add: phase_spec_def)
    also have "\<dots> = ?f" using assms eq by simp
    finally show ?thesis using bounds nonneg by simp
  qed
qed

end
